theory Spec2Isabelle
  imports Main
begin

section \<open>Data model\<close>

text \<open>
  The repository holds three near-identical copies of one Express server:
  \<^item> \<open>SingleUser\<close>: \<^verbatim>\<open>src/server.js\<close>, lines 1-187 (global private-bot quota,
    data files initialised and repaired at load);
  \<^item> \<open>SingleUserLegacy\<close>: \<^verbatim>\<open>src/server.js\<close>, lines 188-330 (same handler, a
    \<^verbatim>\<open>loadData\<close> that never writes);
  \<^item> \<open>PerUser\<close>: \<^verbatim>\<open>src/unnamed/part_000\<close> (a \<^verbatim>\<open>userId\<close> on requests, records and
    user info, a quota counted per user, and the verify endpoint).
\<close>

datatype variant = SingleUser | SingleUserLegacy | PerUser

text \<open>
  A JavaScript number as far as the handlers look at \<^verbatim>\<open>userInfo.points\<close>: not a
  number, one of the two infinities, or a finite double of integer value (\<open>Num n\<close>).
  Every integer of magnitude up to \<open>2 ^ 53\<close> is such a double; above that only the
  integers with at most 53 significant bits are. Balances with a fractional part are
  outside the model.
\<close>

datatype number = NaN | Num int | Infinity | MinusInfinity

fun isNaN :: "number \<Rightarrow> bool" where
  "isNaN NaN = True"
| "isNaN (Num n) = False"
| "isNaN Infinity = False"
| "isNaN MinusInfinity = False"

text \<open>\<^verbatim>\<open>x < k\<close>: every comparison with NaN is false.\<close>

fun less_num :: "number \<Rightarrow> int \<Rightarrow> bool" where
  "less_num NaN k = False"
| "less_num (Num n) k = (n < k)"
| "less_num Infinity k = False"
| "less_num MinusInfinity k = True"

text \<open>The number of binary digits of \<open>n\<close>.\<close>

fun bitlen_nat :: "nat \<Rightarrow> nat" where
  "bitlen_nat n = (if n = 0 then 0 else Suc (bitlen_nat (n div 2)))"

declare bitlen_nat.simps [simp del]

text \<open>
  The result of an arithmetic operation whose exact value is the integer \<open>n\<close>: the
  nearest double, ties going to the even significand (IEEE 754 round to nearest). An
  integer below \<open>2 ^ 53\<close> in magnitude is kept; a larger one keeps its 53 leading bits,
  rounded, and becomes an infinity from \<open>2 ^ 1024\<close> on.
\<close>

definition to_double :: "int \<Rightarrow> number" where
  "to_double n =
     (let a = nat \<bar>n\<bar> in
      if a < 2 ^ 53 then Num n
      else
        (let u = 2 ^ (bitlen_nat a - 53);
             q = a div u;
             r = a mod u;
             q' = (if u < 2 * r \<or> (2 * r = u \<and> odd q) then q + 1 else q)
         in if 2 ^ 1024 \<le> q' * u then (if n < 0 then MinusInfinity else Infinity)
            else Num (if n < 0 then - int (q' * u) else int (q' * u))))"

text \<open>\<^verbatim>\<open>x - k\<close>, rounded as the double subtraction rounds it.\<close>

fun minus_num :: "number \<Rightarrow> int \<Rightarrow> number" where
  "minus_num NaN k = NaN"
| "minus_num (Num n) k = to_double (n - k)"
| "minus_num Infinity k = Infinity"
| "minus_num MinusInfinity k = MinusInfinity"

text \<open>\<^verbatim>\<open>x || 0\<close>: NaN and 0 are falsy.\<close>

fun or_zero :: "number \<Rightarrow> number" where
  "or_zero NaN = Num 0"
| "or_zero (Num n) = Num n"
| "or_zero Infinity = Infinity"
| "or_zero MinusInfinity = MinusInfinity"

text \<open>\<^verbatim>\<open>s || 'guest'\<close> on an optional string: absent and empty are falsy.\<close>

fun or_guest :: "string option \<Rightarrow> string" where
  "or_guest None = ''guest''"
| "or_guest (Some s) = (if s = [] then ''guest'' else s)"

text \<open>
  An optional string read as a string: \<^verbatim>\<open>undefined\<close> renders as that word in a
  template.
\<close>

fun text_of :: "string option \<Rightarrow> string" where
  "text_of None = ''undefined''"
| "text_of (Some s) = s"

text \<open>Truthiness of the two request fields the handler negates.\<close>

fun truthy_flag :: "bool option \<Rightarrow> bool" where
  "truthy_flag None = False"
| "truthy_flag (Some b) = b"

fun truthy_text :: "string option \<Rightarrow> bool" where
  "truthy_text None = False"
| "truthy_text (Some s) = (s \<noteq> [])"

subsection \<open>Decimal rendering of numbers in template strings\<close>

text \<open>The last decimal digit of \<open>d\<close>.\<close>

definition digit :: "nat \<Rightarrow> char" where
  "digit d = ''0123456789'' ! (d mod 10)"

fun dec :: "nat \<Rightarrow> string" where
  "dec n = (if n < 10 then [digit n] else dec (n div 10) @ [digit (n mod 10)])"

declare dec.simps [simp del]

definition show_int :: "int \<Rightarrow> string" where
  "show_int i = (if i < 0 then CHR ''-'' # dec (nat (- i)) else dec (nat i))"

text \<open>
  A number in a template string. JavaScript writes a finite integer in plain decimal
  digits up to a magnitude of \<open>10 ^ 21\<close> and in exponent notation from there on; the
  exponent notation is not modelled.
\<close>

fun show_num :: "number \<Rightarrow> string" where
  "show_num NaN = ''NaN''"
| "show_num (Num n) = show_int n"
| "show_num Infinity = ''Infinity''"
| "show_num MinusInfinity = ''-Infinity''"

subsection \<open>Records\<close>

text \<open>
  A bot as the handler constructs it. The two ISO timestamps are kept as the
  millisecond instants they render; \<open>userId\<close> is absent (\<open>None\<close>) on records built by
  the single-user variants.
\<close>

record bot =
  id_bot :: string
  username :: string
  status :: string
  createdAt :: nat
  verificationDeadline :: nat
  isPrivate :: bool
  userId :: "string option"

record user_info =
  points :: number
  userId_info :: "string option"

text \<open>The module-level variables \<^verbatim>\<open>bots\<close>, \<^verbatim>\<open>botCount\<close>, \<^verbatim>\<open>userInfo\<close>.\<close>

record mem =
  bots :: "bot list"
  botCount :: int
  userInfo :: user_info

definition maxBots :: int where
  "maxBots = 20"

definition maxPrivateBots :: nat where
  "maxPrivateBots = 5"

text \<open>The body of \<^verbatim>\<open>POST /api/bots\<close>; a field that is absent is \<open>None\<close>.\<close>

record req_body =
  username_req :: "string option"
  isPrivate_req :: "bool option"
  userId_req :: "string option"

subsection \<open>The world outside the process memory\<close>

text \<open>
  A file is missing, or reading and parsing it throws (\<open>Corrupt\<close>: an unreadable file,
  malformed JSON, and for the bot file also JSON that is no array of objects, on which
  \<^verbatim>\<open>bots.filter\<close> throws), or it holds a document of its kind: a list of bot records,
  or a user object with its \<^verbatim>\<open>points\<close> already passed through \<^verbatim>\<open>Number\<close>. Well-formed
  JSON of any other shape is outside the model.
\<close>

datatype 'a disk_file = Missing | Corrupt | Doc 'a

datatype log_entry = Log string | Error string

text \<open>
  \<open>failing\<close> holds the positions of the calls of \<^verbatim>\<open>fs.writeFile\<close> that reject (a
  rejected write leaves the file as it was); \<open>writes\<close> counts the calls made so far.
  \<open>clock k\<close> is what the \<open>k\<close>-th reading of the system time returns, \<open>clock_reads\<close>
  counts the readings. \<open>console\<close> collects the lines written by \<^verbatim>\<open>console.log\<close> and
  \<^verbatim>\<open>console.error\<close>, each by the constant text it starts with.
\<close>

record env =
  bot_data_json :: "bot list disk_file"
  user_data_json :: "user_info disk_file"
  failing :: "nat set"
  writes :: nat
  clock :: "nat \<Rightarrow> nat"
  clock_reads :: nat
  console :: "log_entry list"

definition console_log :: "string \<Rightarrow> env \<Rightarrow> env" where
  "console_log s e = e\<lparr>console := console e @ [Log s]\<rparr>"

definition console_error :: "string \<Rightarrow> env \<Rightarrow> env" where
  "console_error s e = e\<lparr>console := console e @ [Error s]\<rparr>"

definition Date_now :: "env \<Rightarrow> nat \<times> env" where
  "Date_now e = (clock e (clock_reads e), e\<lparr>clock_reads := Suc (clock_reads e)\<rparr>)"

text \<open>
  \<^verbatim>\<open>fs.writeFile\<close> on each of the two paths: \<open>True\<close> when the promise resolves, \<open>False\<close>
  when it rejects.
\<close>

definition write_bot_data :: "bot list \<Rightarrow> env \<Rightarrow> bool \<times> env" where
  "write_bot_data bs e =
     (if writes e \<in> failing e then (False, e\<lparr>writes := Suc (writes e)\<rparr>)
      else (True, e\<lparr>bot_data_json := Doc bs, writes := Suc (writes e)\<rparr>))"

definition write_user_data :: "user_info \<Rightarrow> env \<Rightarrow> bool \<times> env" where
  "write_user_data u e =
     (if writes e \<in> failing e then (False, e\<lparr>writes := Suc (writes e)\<rparr>)
      else (True, e\<lparr>user_data_json := Doc u, writes := Suc (writes e)\<rparr>))"

text \<open>\<^verbatim>\<open>fileExists\<close>: \<^verbatim>\<open>fs.access\<close> succeeds on every file that is there.\<close>

fun fileExists :: "'a disk_file \<Rightarrow> bool" where
  "fileExists Missing = False"
| "fileExists Corrupt = True"
| "fileExists (Doc d) = True"

section \<open>Persistence\<close>

definition saveBots :: "mem \<Rightarrow> env \<Rightarrow> bool \<times> env" where
  "saveBots m e = write_bot_data (bots m) e"

text \<open>
  The single-user variants write \<^verbatim>\<open>{ points: userInfo.points }\<close>, the per-user variant
  the whole \<^verbatim>\<open>userInfo\<close>.
\<close>

definition saveUserData :: "variant \<Rightarrow> mem \<Rightarrow> env \<Rightarrow> bool \<times> env" where
  "saveUserData v m e =
     (if v = PerUser then write_user_data (userInfo m) e
      else write_user_data \<lparr>points = points (userInfo m), userId_info = None\<rparr> e)"

text \<open>The default user document of each variant.\<close>

definition default_user :: "variant \<Rightarrow> user_info" where
  "default_user v =
     (if v = PerUser then \<lparr>points = Num 0, userId_info = Some ''guest''\<rparr>
      else \<lparr>points = Num 0, userId_info = None\<rparr>)"

text \<open>The module-level initial values.\<close>

definition initial :: "variant \<Rightarrow> mem" where
  "initial v = \<lparr>bots = [], botCount = 0, userInfo = default_user v\<rparr>"

section \<open>Loading\<close>

text \<open>
  \<^verbatim>\<open>initializeDataFiles\<close> (variants \<open>SingleUser\<close> and \<open>PerUser\<close>). \<open>False\<close> when one of
  its writes rejects: the function throws at that point.
\<close>

definition initializeDataFiles :: "variant \<Rightarrow> env \<Rightarrow> bool \<times> env" where
  "initializeDataFiles v e =
     (let (ok1, e1) =
            (if \<not> fileExists (bot_data_json e)
             then write_bot_data [] (console_log ''Creating bot_data.json'' e)
             else (True, e))
      in if \<not> ok1 then (False, e1)
         else if \<not> fileExists (user_data_json e1)
         then write_user_data (default_user v) (console_log ''Creating user_data.json'' e1)
         else (True, e1))"

text \<open>
  The first inner \<^verbatim>\<open>try\<close> of \<^verbatim>\<open>loadData\<close>: read and parse the bot list; on failure
  reset the variables and, except in the legacy variant, overwrite the file. \<open>False\<close>
  when that write rejects, which throws out of the \<^verbatim>\<open>catch\<close> block.
\<close>

definition load_bots :: "variant \<Rightarrow> mem \<times> env \<Rightarrow> bool \<times> mem \<times> env" where
  "load_bots v = (\<lambda>(m, e).
     (case bot_data_json e of
        Doc bs \<Rightarrow> (True, m\<lparr>bots := bs, botCount := int (length bs)\<rparr>, console_log ''Loaded bots'' e)
      | _ \<Rightarrow>
          (if v = SingleUserLegacy
           then (True, m\<lparr>bots := [], botCount := 0\<rparr>, console_error ''Error loading bots:'' e)
           else
             (let e1 = console_error ''Error loading bot_data.json'' e;
                  m1 = m\<lparr>bots := [], botCount := 0\<rparr>;
                  (ok, e2) = write_bot_data [] e1
              in if ok then (True, m1, console_log ''Initialized empty bot_data.json due to load error'' e2)
                 else (False, m1, e2)))))"

text \<open>
  The second inner \<^verbatim>\<open>try\<close>: read and parse the user document, coerce \<^verbatim>\<open>points\<close> with
  \<^verbatim>\<open>Number(...) || 0\<close> and, in the per-user variant, default \<^verbatim>\<open>userId\<close>. On failure the
  repairing variants assign the default object and overwrite the file; the legacy
  variant only sets \<^verbatim>\<open>userInfo.points = 0\<close>.
\<close>

definition load_user :: "variant \<Rightarrow> mem \<times> env \<Rightarrow> bool \<times> mem \<times> env" where
  "load_user v = (\<lambda>(m, e).
     (case user_data_json e of
        Doc u \<Rightarrow>
          (let u1 = u\<lparr>points := or_zero (points u)\<rparr>;
               u2 = (if v = PerUser then u1\<lparr>userId_info := Some (or_guest (userId_info u1))\<rparr> else u1)
           in (True, m\<lparr>userInfo := u2\<rparr>, console_log ''Loaded user data'' e))
      | _ \<Rightarrow>
          (if v = SingleUserLegacy
           then (True, m\<lparr>userInfo := (userInfo m)\<lparr>points := Num 0\<rparr>\<rparr>,
                 console_error ''Error loading user data:'' e)
           else
             (let e1 = console_error ''Error loading user_data.json'' e;
                  m1 = m\<lparr>userInfo := default_user v\<rparr>;
                  (ok, e2) = write_user_data (default_user v) e1
              in if ok then (True, m1, console_log ''Initialized empty user_data.json due to load error'' e2)
                 else (False, m1, e2)))))"

text \<open>
  \<^verbatim>\<open>loadData\<close>. The result is \<open>False\<close> when the function throws (the outer \<^verbatim>\<open>catch\<close> logs
  and rethrows: the server does not start). The legacy variant has no outer \<^verbatim>\<open>try\<close>,
  no initialisation and no write.
\<close>

definition loadData :: "variant \<Rightarrow> mem \<times> env \<Rightarrow> bool \<times> mem \<times> env" where
  "loadData v = (\<lambda>(m, e).
     if v = SingleUserLegacy
     then (let (ok1, m1, e1) = load_bots v (m, e) in load_user v (m1, e1))
     else
       (let (ok0, e0) = initializeDataFiles v e
        in if \<not> ok0 then (False, m, console_error ''Error initializing data files'' e0)
           else
             (let (ok1, m1, e1) = load_bots v (m, e0)
              in if \<not> ok1 then (False, m1, console_error ''Error initializing data files'' e1)
                 else
                   (let (ok2, m2, e2) = load_user v (m1, e1)
                    in if \<not> ok2 then (False, m2, console_error ''Error initializing data files'' e2)
                       else (True, m2, e2)))))"

section \<open>The handlers\<close>

datatype body =
    ErrorBody string
  | CreatedBody string bot
  | MessageBody string

text \<open>\<open>Json c b\<close> is \<^verbatim>\<open>res.status(c).json(b)\<close>.\<close>

datatype response = Json nat body

text \<open>
  Validation 4 counts \<^verbatim>\<open>bots.filter(bot => bot.isPrivate)\<close>, and in the per-user variant
  \<^verbatim>\<open>bots.filter(bot => bot.isPrivate && bot.userId === userId)\<close>, with the request's
  \<^verbatim>\<open>userId\<close> as it came.
\<close>

definition privateBotCount :: "variant \<Rightarrow> req_body \<Rightarrow> mem \<Rightarrow> nat" where
  "privateBotCount v b m =
     (if v = PerUser
      then length (filter (\<lambda>bot. isPrivate bot \<and> userId bot = userId_req b) (bots m))
      else length (filter (\<lambda>bot. isPrivate bot) (bots m)))"

definition private_limit_message :: "variant \<Rightarrow> string" where
  "private_limit_message v =
     (if v = PerUser then ''Maximum private bot limit (5) reached for this user!''
      else ''Maximum private bot limit (5) reached!'')"

definition insufficient_message :: "number \<Rightarrow> string" where
  "insufficient_message p =
     ''Insufficient points! You need 250 points to create a private bot. Current points: ''
       @ show_num (or_zero p)"

text \<open>
  The record literal of the handler: three readings of the clock, in the order of the
  fields.
\<close>

definition new_bot :: "variant \<Rightarrow> req_body \<Rightarrow> env \<Rightarrow> bot \<times> env" where
  "new_bot v b e =
     (let (t_id, e1) = Date_now e;
          (t_created, e2) = Date_now e1;
          (t_deadline, e3) = Date_now e2
      in (\<lparr>id_bot = ''bot_'' @ dec t_id,
           username = text_of (username_req b),
           status = ''Waiting for Verification'',
           createdAt = t_created,
           verificationDeadline = t_deadline + 24 * 60 * 60 * 1000,
           isPrivate = True,
           userId = (if v = PerUser then Some (or_guest (userId_req b)) else None)\<rparr>, e3))"

text \<open>
  \<^verbatim>\<open>POST /api/bots\<close>. The response is \<open>None\<close> when the handler's promise rejects before
  any \<^verbatim>\<open>res.json\<close>: the second \<^verbatim>\<open>saveUserData\<close> is awaited inside the \<^verbatim>\<open>catch\<close> block,
  ahead of the \<^verbatim>\<open>console.error\<close> and the response.
\<close>

definition createBot :: "variant \<Rightarrow> req_body \<Rightarrow> mem \<times> env \<Rightarrow> response option \<times> mem \<times> env" where
  "createBot v b = (\<lambda>(m, e).
     (let e0 = console_log ''Create bot attempt'' e in
      if \<not> truthy_flag (isPrivate_req b)
      then (Some (Json 400 (ErrorBody ''Private bot checkbox must be checked.'')), m, e0)
      else if \<not> truthy_text (username_req b)
      then (Some (Json 400 (ErrorBody ''Please enter a username for the bot.'')), m, e0)
      else if botCount m \<ge> maxBots
      then (Some (Json 400 (ErrorBody ''Maximum bot limit (20) reached!'')), m, e0)
      else if privateBotCount v b m \<ge> maxPrivateBots
      then (Some (Json 400 (ErrorBody (private_limit_message v))), m, e0)
      else if less_num (points (userInfo m)) 250 \<or> isNaN (points (userInfo m))
      then (Some (Json 400 (ErrorBody (insufficient_message (points (userInfo m))))), m, e0)
      else
        (let originalPoints = points (userInfo m);
             m1 = m\<lparr>userInfo := (userInfo m)\<lparr>points := minus_num (points (userInfo m)) 250\<rparr>\<rparr>;
             (ok1, e1) = saveUserData v m1 e0
         in if \<not> ok1
            then (Some (Json 500 (ErrorBody ''Error saving points. Please try again.'')),
                  m1\<lparr>userInfo := (userInfo m1)\<lparr>points := originalPoints\<rparr>\<rparr>,
                  console_error ''Failed to save user data:'' e1)
            else
              (let (bot, e2) = new_bot v b (console_log ''Points saved'' e1);
                   m2 = m1\<lparr>bots := bots m1 @ [bot], botCount := botCount m1 + 1\<rparr>;
                   (ok2, e3) = saveBots m2 e2
               in if ok2
                  then (Some (Json 200 (CreatedBody
                          (''Bot '' @ text_of (username_req b) @ '' created successfully! 250 points deducted.'') bot)),
                        m2, console_log ''Bot saved'' e3)
                  else
                    (let m3 = m2\<lparr>bots := butlast (bots m2), botCount := botCount m2 - 1,
                                 userInfo := (userInfo m2)\<lparr>points := originalPoints\<rparr>\<rparr>;
                         (ok3, e4) = saveUserData v m3 e3
                     in if ok3
                        then (Some (Json 500 (ErrorBody ''Error saving bot. Please try again.'')),
                              m3, console_error ''Failed to save bots:'' e4)
                        else (None, m3, e4))))))"

text \<open>
  \<^verbatim>\<open>bots.find(b => b.id === botId)\<close> returns a reference to the first matching element
  of the array; the reference is its index.
\<close>

fun find_bot :: "string \<Rightarrow> bot list \<Rightarrow> nat option" where
  "find_bot botId [] = None"
| "find_bot botId (b # bs) =
     (if id_bot b = botId then Some 0 else map_option Suc (find_bot botId bs))"

text \<open>\<^verbatim>\<open>POST /api/bots/verify/:botId\<close> (per-user variant only).\<close>

definition verifyBot :: "string \<Rightarrow> mem \<times> env \<Rightarrow> response option \<times> mem \<times> env" where
  "verifyBot botId = (\<lambda>(m, e).
     (case find_bot botId (bots m) of
        None \<Rightarrow> (Some (Json 404 (ErrorBody ''Bot not found.'')), m, e)
      | Some i \<Rightarrow>
          (let m1 = m\<lparr>bots := (bots m)[i := (bots m ! i)\<lparr>status := ''Verified''\<rparr>]\<rparr>;
               (ok, e1) = saveBots m1 e
           in if ok
              then (Some (Json 200 (MessageBody (''Bot '' @ username (bots m1 ! i) @ '' verified.''))), m1, e1)
              else (Some (Json 500 (ErrorBody ''Error verifying bot.'')), m1,
                    console_error ''Failed to save bots:'' e1))))"

text \<open>Requests handled one after the other.\<close>

fun run :: "variant \<Rightarrow> req_body list \<Rightarrow> mem \<times> env \<Rightarrow> mem \<times> env" where
  "run v [] s = s"
| "run v (b # bs) s = run v bs (snd (createBot v b s))"

section \<open>The validation chain as the specification words it\<close>

text \<open>
  The five checks of the creation workflow, in the order the specification lists
  them: private flag, username, global capacity, private-bot quota, balance.
\<close>

datatype check = PrivateFlag | Username | GlobalCapacity | PrivateQuota | Balance

fun check_fails :: "variant \<Rightarrow> req_body \<Rightarrow> mem \<Rightarrow> check \<Rightarrow> bool" where
  "check_fails v b m PrivateFlag = (isPrivate_req b \<noteq> Some True)"
| "check_fails v b m Username = (username_req b = None \<or> username_req b = Some [])"
| "check_fails v b m GlobalCapacity = (botCount m \<ge> 20)"
| "check_fails v b m PrivateQuota =
     (case v of
        PerUser \<Rightarrow> length (filter (\<lambda>r. isPrivate r \<and> userId r = userId_req b) (bots m)) \<ge> 5
      | _ \<Rightarrow> length (filter isPrivate (bots m)) \<ge> 5)"
| "check_fails v b m Balance =
     (case points (userInfo m) of
        NaN \<Rightarrow> True
      | Num p \<Rightarrow> p < 250
      | Infinity \<Rightarrow> False
      | MinusInfinity \<Rightarrow> True)"

definition first_failing :: "variant \<Rightarrow> req_body \<Rightarrow> mem \<Rightarrow> check option" where
  "first_failing v b m =
     find (check_fails v b m) [PrivateFlag, Username, GlobalCapacity, PrivateQuota, Balance]"

text \<open>The body of the 400 response the handler sends for each check.\<close>

fun check_message :: "variant \<Rightarrow> mem \<Rightarrow> check \<Rightarrow> string" where
  "check_message v m PrivateFlag = ''Private bot checkbox must be checked.''"
| "check_message v m Username = ''Please enter a username for the bot.''"
| "check_message v m GlobalCapacity = ''Maximum bot limit (20) reached!''"
| "check_message v m PrivateQuota = private_limit_message v"
| "check_message v m Balance = insufficient_message (points (userInfo m))"

section \<open>Example clocks\<close>

text \<open>A clock that advances by a millisecond at every reading, and one whose readings
  all fall into the same millisecond.\<close>

definition steady_clock :: "nat \<Rightarrow> nat" where
  "steady_clock k = 1700000000000 + k"

definition stalled_clock :: "nat \<Rightarrow> nat" where
  "stalled_clock k = 1700000000000"

text \<open>
  Every record construction reads the clock three times, first for the id:
  \<open>id_reading e k\<close> is the reading that the \<open>k\<close>-th construction after \<open>e\<close> puts
  into its id.
\<close>

definition id_reading :: "env \<Rightarrow> nat \<Rightarrow> nat" where
  "id_reading e k = clock e (clock_reads e + 3 * k)"

text \<open>
  The invariant behind the ids: after \<open>n\<close> constructions since \<open>e0\<close> the clock has
  been read \<open>3 * n\<close> times more, the stored ids are pairwise distinct and each renders
  one of the first \<open>n\<close> id readings.
\<close>

definition ids_from :: "env \<Rightarrow> nat \<Rightarrow> mem \<times> env \<Rightarrow> bool" where
  "ids_from e0 n s \<longleftrightarrow>
     clock (snd s) = clock e0 \<and> clock_reads (snd s) = clock_reads e0 + 3 * n
     \<and> distinct (map id_bot (bots (fst s)))
     \<and> list_all (\<lambda>r. id_bot r \<in> (\<lambda>i. ''bot_'' @ dec (id_reading e0 i)) ` {..<n}) (bots (fst s))"

section \<open>Example requests and states\<close>

abbreviation req_a :: req_body where
  "req_a \<equiv> \<lparr>username_req = Some ''a'', isPrivate_req = Some True, userId_req = None\<rparr>"

abbreviation req_b :: req_body where
  "req_b \<equiv> \<lparr>username_req = Some ''b'', isPrivate_req = Some True, userId_req = None\<rparr>"

abbreviation req_guest :: req_body where
  "req_guest \<equiv> \<lparr>username_req = Some ''a'', isPrivate_req = Some True, userId_req = Some ''guest''\<rparr>"

abbreviation account :: "int \<Rightarrow> string option \<Rightarrow> user_info" where
  "account p u \<equiv> \<lparr>points = Num p, userId_info = u\<rparr>"

text \<open>No bots and a balance of \<open>p\<close>, in memory and on disk; the writes at the positions
  in \<open>F\<close> reject, the clock is \<open>c\<close>.\<close>

abbreviation empty_store :: "int \<Rightarrow> string option \<Rightarrow> mem" where
  "empty_store p u \<equiv> \<lparr>bots = [], botCount = 0, userInfo = account p u\<rparr>"

abbreviation disk :: "int \<Rightarrow> string option \<Rightarrow> nat set \<Rightarrow> (nat \<Rightarrow> nat) \<Rightarrow> env" where
  "disk p u F c \<equiv>
     \<lparr>bot_data_json = Doc [], user_data_json = Doc (account p u), failing = F, writes = 0,
      clock = c, clock_reads = 0, console = []\<rparr>"

text \<open>Two stored records, the first verified, the second waiting.\<close>

abbreviation bot_1 :: bot where
  "bot_1 \<equiv> \<lparr>id_bot = ''bot_1'', username = ''a'', status = ''Verified'', createdAt = 1,
     verificationDeadline = 86400001, isPrivate = True, userId = Some ''guest''\<rparr>"

abbreviation bot_2 :: bot where
  "bot_2 \<equiv> \<lparr>id_bot = ''bot_2'', username = ''b'', status = ''Waiting for Verification'',
     createdAt = 2, verificationDeadline = 86400002, isPrivate = True, userId = Some ''u1''\<rparr>"

abbreviation two_bots :: "bot list \<Rightarrow> mem" where
  "two_bots bs \<equiv> \<lparr>bots = bs, botCount = 2, userInfo = account 50 (Some ''guest'')\<rparr>"

abbreviation two_bots_disk :: "bot list \<Rightarrow> nat set \<Rightarrow> nat \<Rightarrow> env" where
  "two_bots_disk bs F n \<equiv>
     \<lparr>bot_data_json = Doc bs, user_data_json = Doc (account 50 (Some ''guest'')), failing = F,
      writes = n, clock = steady_clock, clock_reads = 0, console = []\<rparr>"

section \<open>Shared facts\<close>

lemmas io_defs = saveUserData_def saveBots_def write_bot_data_def write_user_data_def
  new_bot_def Date_now_def console_log_def console_error_def

lemmas load_defs = loadData_def load_bots_def load_user_def initializeDataFiles_def
  write_bot_data_def write_user_data_def console_log_def console_error_def

lemmas limit_defs = maxBots_def maxPrivateBots_def privateBotCount_def

text \<open>No check of the specification fails exactly when the handler's five tests all pass.\<close>

lemma first_failing_None:
  "first_failing v b m = None \<longleftrightarrow>
     truthy_flag (isPrivate_req b) \<and> truthy_text (username_req b) \<and> botCount m < maxBots
     \<and> privateBotCount v b m < maxPrivateBots
     \<and> \<not> (less_num (points (userInfo m)) 250 \<or> isNaN (points (userInfo m)))"
  apply (cases "isPrivate_req b"; cases "username_req b"; cases v; cases "points (userInfo m)")
  apply (auto simp: first_failing_def limit_defs)
  done

text \<open>
  Below \<open>2 ^ 53\<close> in magnitude the rounding keeps the integer: the subtraction is exact.
\<close>

lemma to_double_exact [simp]:
  assumes "\<bar>n\<bar> < 2 ^ 53"
  shows "to_double n = Num n"
proof -
  have "nat \<bar>n\<bar> < 2 ^ 53"
    using assms by simp
  then show ?thesis
    unfolding to_double_def Let_def by (simp only: if_True)
qed

lemma minus_num_exact:
  assumes "250 \<le> p" and "p \<le> 2 ^ 53"
  shows "minus_num (Num p) 250 = Num (p - 250)"
proof -
  have "\<bar>p - 250\<bar> < 2 ^ 53"
    using assms by simp
  then show ?thesis
    by simp
qed

text \<open>Above \<open>2 ^ 53\<close> ties go to the even significand, on both sides of zero.\<close>

lemma to_double_examples:
  "to_double (2 ^ 53 + 1) = Num (2 ^ 53)"
  "to_double (2 ^ 53 + 3) = Num (2 ^ 53 + 4)"
  "to_double (- (2 ^ 53 + 3)) = Num (- (2 ^ 53 + 4))"
  "to_double (100000000000000000 - 250) = Num 99999999999999744"
  by (simp_all add: to_double_def bitlen_nat.simps)

text \<open>
  What a creation request can end in: the clock itself is never changed; either the
  memory is what it was, the response is not that of a creation and the clock was read
  three times or not at all; or every check passed, the response is the 200 of a
  creation and the memory has the new private record at the end of the list, the counter
  one higher and 250 points less.
\<close>

lemma createBot_result:
  assumes "createBot v b (m, e) = (res, m', e')"
  shows "clock e' = clock e \<and>
    ((m' = m \<and> (\<forall>msg r. res \<noteq> Some (Json 200 (CreatedBody msg r)))
        \<and> (clock_reads e' = clock_reads e \<or> clock_reads e' = clock_reads e + 3))
     \<or> (first_failing v b m = None \<and>
        (\<exists>msg r. res = Some (Json 200 (CreatedBody msg r))
           \<and> isPrivate r
           \<and> userId r = (if v = PerUser then Some (or_guest (userId_req b)) else None)
           \<and> id_bot r = ''bot_'' @ dec (clock e (clock_reads e))
           \<and> clock_reads e' = clock_reads e + 3
           \<and> m' = m\<lparr>bots := bots m @ [r], botCount := botCount m + 1,
                userInfo := (userInfo m)\<lparr>points := minus_num (points (userInfo m)) 250\<rparr>\<rparr>)))"
  using assms unfolding first_failing_None
  by (auto simp: createBot_def io_defs Let_def split: if_splits)

lemma createBot_step:
  "clock (snd (snd (createBot v b s))) = clock (snd s) \<and>
    ((fst (snd (createBot v b s)) = fst s
        \<and> (\<forall>msg r. fst (createBot v b s) \<noteq> Some (Json 200 (CreatedBody msg r)))
        \<and> (clock_reads (snd (snd (createBot v b s))) = clock_reads (snd s)
            \<or> clock_reads (snd (snd (createBot v b s))) = clock_reads (snd s) + 3))
     \<or> (first_failing v b (fst s) = None \<and>
        (\<exists>msg r. fst (createBot v b s) = Some (Json 200 (CreatedBody msg r))
           \<and> isPrivate r
           \<and> userId r = (if v = PerUser then Some (or_guest (userId_req b)) else None)
           \<and> id_bot r = ''bot_'' @ dec (clock (snd s) (clock_reads (snd s)))
           \<and> clock_reads (snd (snd (createBot v b s))) = clock_reads (snd s) + 3
           \<and> fst (snd (createBot v b s)) =
               (fst s)\<lparr>bots := bots (fst s) @ [r], botCount := botCount (fst s) + 1,
                 userInfo := (userInfo (fst s))\<lparr>points := minus_num (points (userInfo (fst s))) 250\<rparr>\<rparr>)))"
  using createBot_result [of v b "fst s" "snd s" "fst (createBot v b s)"
      "fst (snd (createBot v b s))" "snd (snd (createBot v b s))"]
  by auto

text \<open>
  The second write rejecting: the memory is rolled back and the bot file untouched;
  when the compensating write succeeds the answer is the 500 of the bot save, logged,
  with the restored balance written back; when it rejects too, the handler ends without
  a response and without its error line, the disk keeping the reduced balance.
\<close>

lemma createBot_bot_save_failure:
  assumes "first_failing v b m = None" and "writes e \<notin> failing e" and "Suc (writes e) \<in> failing e"
    and "createBot v b (m, e) = (res, m', e')"
  shows "m' = m \<and> bot_data_json e' = bot_data_json e \<and> writes e' = writes e + 3 \<and>
    (if Suc (Suc (writes e)) \<in> failing e
     then res = None
        \<and> (\<exists>u. user_data_json e' = Doc u \<and> points u = minus_num (points (userInfo m)) 250)
        \<and> console e' = console e @ [Log ''Create bot attempt'', Log ''Points saved'']
     else res = Some (Json 500 (ErrorBody ''Error saving bot. Please try again.''))
        \<and> (\<exists>u. user_data_json e' = Doc u \<and> points u = points (userInfo m))
        \<and> console e' = console e @ [Log ''Create bot attempt'', Log ''Points saved'',
             Error ''Failed to save bots:''])"
  using assms unfolding first_failing_None
  by (auto simp: createBot_def io_defs Let_def split: if_splits)

text \<open>The counter follows the list through every request and through loading.\<close>

lemma createBot_count:
  assumes "botCount (fst s) = int (length (bots (fst s)))"
  shows "botCount (fst (snd (createBot v b s))) = int (length (bots (fst (snd (createBot v b s)))))"
  using assms createBot_step [of v b s] by auto

lemma run_count:
  "botCount (fst s) = int (length (bots (fst s))) \<Longrightarrow>
   botCount (fst (run v reqs s)) = int (length (bots (fst (run v reqs s))))"
proof (induction reqs arbitrary: s)
  case Nil
  then show ?case by simp
next
  case (Cons b reqs)
  from Cons.IH [OF createBot_count [OF Cons.prems]] show ?case by simp
qed

lemma loadData_count:
  "botCount (fst (snd (loadData v (initial v, e)))) =
     int (length (bots (fst (snd (loadData v (initial v, e))))))"
  by (simp add: load_defs initial_def Let_def split: disk_file.splits prod.splits)

text \<open>
  The limits that sequential requests keep: the counter stays within 20 in every
  variant; the number of private records stays within 5 in the single-user variants; in
  the per-user variant the private records of any user other than \<^verbatim>\<open>guest\<close> stay within
  5.
\<close>

lemma createBot_botCount_le:
  assumes "botCount (fst s) \<le> 20"
  shows "botCount (fst (snd (createBot v b s))) \<le> 20"
  using assms createBot_step [of v b s]
  by (auto simp: first_failing_None maxBots_def)

lemma createBot_private_le:
  assumes "length (filter isPrivate (bots (fst s))) \<le> 5" and "v \<noteq> PerUser"
  shows "length (filter isPrivate (bots (fst (snd (createBot v b s))))) \<le> 5"
  using assms createBot_step [of v b s]
  by (auto simp: first_failing_None maxPrivateBots_def privateBotCount_def)

lemma createBot_user_le:
  assumes "length (filter (\<lambda>r. isPrivate r \<and> userId r = Some u) (bots (fst s))) \<le> 5"
    and "u \<noteq> ''guest''"
  shows "length (filter (\<lambda>r. isPrivate r \<and> userId r = Some u)
           (bots (fst (snd (createBot PerUser b s))))) \<le> 5"
proof (cases "userId_req b = Some u")
  case True
  with assms createBot_step [of PerUser b s] show ?thesis
    by (auto simp: first_failing_None maxPrivateBots_def privateBotCount_def)
next
  case False
  then have "or_guest (userId_req b) \<noteq> u"
    using assms(2) by (cases "userId_req b") auto
  with assms createBot_step [of PerUser b s] show ?thesis
    by auto
qed

lemma run_botCount_le:
  "botCount (fst s) \<le> 20 \<Longrightarrow> botCount (fst (run v reqs s)) \<le> 20"
proof (induction reqs arbitrary: s)
  case Nil
  then show ?case by simp
next
  case (Cons b reqs)
  from Cons.IH [OF createBot_botCount_le [OF Cons.prems]] show ?case by simp
qed

lemma run_private_le:
  assumes "v \<noteq> PerUser"
  shows "length (filter isPrivate (bots (fst s))) \<le> 5 \<Longrightarrow>
         length (filter isPrivate (bots (fst (run v reqs s)))) \<le> 5"
proof (induction reqs arbitrary: s)
  case Nil
  then show ?case by simp
next
  case (Cons b reqs)
  from Cons.IH [OF createBot_private_le [OF Cons.prems assms]] show ?case by simp
qed

lemma run_user_le:
  assumes "u \<noteq> ''guest''"
  shows "length (filter (\<lambda>r. isPrivate r \<and> userId r = Some u) (bots (fst s))) \<le> 5 \<Longrightarrow>
         length (filter (\<lambda>r. isPrivate r \<and> userId r = Some u) (bots (fst (run PerUser reqs s)))) \<le> 5"
proof (induction reqs arbitrary: s)
  case Nil
  then show ?case by simp
next
  case (Cons b reqs)
  from Cons.IH [OF createBot_user_le [OF Cons.prems assms]] show ?case by simp
qed

text \<open>
  \<^verbatim>\<open>find\<close> misses exactly the ids that are not in the list, and otherwise stops at the
  first record carrying the id.
\<close>

lemma find_bot_None: "find_bot botId bs = None \<longleftrightarrow> botId \<notin> id_bot ` set bs"
  by (induction bs) auto

lemma find_bot_first:
  "botId \<notin> id_bot ` set xs \<Longrightarrow> id_bot r = botId \<Longrightarrow>
   find_bot botId (xs @ r # ys) = Some (length xs)"
  by (induction xs) auto

lemma verifyBot_present:
  assumes "bots m = xs @ r # ys" and "botId \<notin> id_bot ` set xs" and "id_bot r = botId"
  shows "verifyBot botId (m, e) =
     (if writes e \<in> failing e
      then (Some (Json 500 (ErrorBody ''Error verifying bot.'')),
            m\<lparr>bots := xs @ r\<lparr>status := ''Verified''\<rparr> # ys\<rparr>,
            e\<lparr>writes := Suc (writes e), console := console e @ [Error ''Failed to save bots:'']\<rparr>)
      else (Some (Json 200 (MessageBody (''Bot '' @ username r @ '' verified.''))),
            m\<lparr>bots := xs @ r\<lparr>status := ''Verified''\<rparr> # ys\<rparr>,
            e\<lparr>bot_data_json := Doc (xs @ r\<lparr>status := ''Verified''\<rparr> # ys), writes := Suc (writes e)\<rparr>))"
  using assms by (simp add: verifyBot_def find_bot_first io_defs Let_def)

text \<open>Decimal rendering is injective.\<close>

lemma digit_eq: "d < 10 \<Longrightarrow> d' < 10 \<Longrightarrow> digit d = digit d' \<longleftrightarrow> d = d'"
  by (simp add: digit_def nth_eq_iff_index_eq)

lemma dec_nonempty: "dec n \<noteq> []"
  by (subst dec.simps) simp

lemma dec_inj: "dec n = dec k \<Longrightarrow> n = k"
proof (induction n arbitrary: k rule: dec.induct)
  case (1 n)
  show ?case
  proof (cases "n < 10")
    case small: True
    show ?thesis
    proof (cases "k < 10")
      case True
      with small "1.prems" show ?thesis
        by (simp add: dec.simps [of n] dec.simps [of k] digit_eq)
    next
      case False
      with small "1.prems" dec_nonempty [of "k div 10"] show ?thesis
        by (simp add: dec.simps [of n] dec.simps [of k])
    qed
  next
    case big: False
    show ?thesis
    proof (cases "k < 10")
      case True
      with big "1.prems" dec_nonempty [of "n div 10"] show ?thesis
        by (simp add: dec.simps [of n] dec.simps [of k])
    next
      case False
      with big "1.prems" have tl: "dec (n div 10) = dec (k div 10)"
        and hd: "digit (n mod 10) = digit (k mod 10)"
        by (simp_all add: dec.simps [of n] dec.simps [of k])
      from "1.IH" [OF big tl] have "n div 10 = k div 10" .
      moreover from hd have "n mod 10 = k mod 10"
        by (simp add: digit_eq)
      ultimately show ?thesis
        by (metis div_mult_mod_eq)
    qed
  qed
qed

lemma dec_example: "dec 1700000000000 = ''1700000000000''"
  by (simp add: dec.simps digit_def)

text \<open>The id invariant is kept by every request, whatever it ends in.\<close>

lemma ids_from_mono:
  "ids_from e0 n s \<Longrightarrow>
   list_all (\<lambda>r. id_bot r \<in> (\<lambda>i. ''bot_'' @ dec (id_reading e0 i)) ` {..<Suc n}) (bots (fst s))"
  by (auto simp: ids_from_def list_all_iff)

lemma ids_from_step:
  assumes inj: "inj (id_reading e0)" and inv: "ids_from e0 n s"
  shows "\<exists>n'. ids_from e0 n' (snd (createBot v b s))"
proof -
  let ?m = "fst (snd (createBot v b s))" and ?e = "snd (snd (createBot v b s))"
  from createBot_step [of v b s]
  have clk: "clock ?e = clock (snd s)"
    and cases: "(bots ?m = bots (fst s)
          \<and> (clock_reads ?e = clock_reads (snd s) \<or> clock_reads ?e = clock_reads (snd s) + 3))
       \<or> (\<exists>r. bots ?m = bots (fst s) @ [r]
              \<and> id_bot r = ''bot_'' @ dec (clock (snd s) (clock_reads (snd s)))
              \<and> clock_reads ?e = clock_reads (snd s) + 3)"
    by auto
  from cases show ?thesis
  proof (elim disjE conjE exE)
    assume "bots ?m = bots (fst s)" "clock_reads ?e = clock_reads (snd s)"
    with inv clk have "ids_from e0 n (snd (createBot v b s))"
      by (simp add: ids_from_def)
    then show ?thesis ..
  next
    assume "bots ?m = bots (fst s)" "clock_reads ?e = clock_reads (snd s) + 3"
    with inv clk ids_from_mono [OF inv] have "ids_from e0 (Suc n) (snd (createBot v b s))"
      by (simp add: ids_from_def)
    then show ?thesis ..
  next
    fix r
    assume app: "bots ?m = bots (fst s) @ [r]"
      and idr: "id_bot r = ''bot_'' @ dec (clock (snd s) (clock_reads (snd s)))"
      and rd: "clock_reads ?e = clock_reads (snd s) + 3"
    from inv have idn: "id_bot r = ''bot_'' @ dec (id_reading e0 n)"
      by (simp add: idr ids_from_def id_reading_def)
    have fresh: "id_bot r \<notin> set (map id_bot (bots (fst s)))"
    proof
      assume "id_bot r \<in> set (map id_bot (bots (fst s)))"
      then obtain r' where "r' \<in> set (bots (fst s))" "id_bot r' = id_bot r"
        by auto
      with inv obtain i where "i < n" "id_bot r' = ''bot_'' @ dec (id_reading e0 i)"
        by (auto simp: ids_from_def list_all_iff)
      with idn \<open>id_bot r' = id_bot r\<close> have "id_reading e0 i = id_reading e0 n"
        by (simp add: dec_inj)
      with inj have "i = n"
        by (simp add: inj_def)
      with \<open>i < n\<close> show False by simp
    qed
    have "ids_from e0 (Suc n) (snd (createBot v b s))"
      using inv clk rd app fresh idn ids_from_mono [OF inv]
      by (simp add: ids_from_def)
    then show ?thesis ..
  qed
qed

lemma ids_from_run:
  assumes inj: "inj (id_reading e0)"
  shows "ids_from e0 n s \<Longrightarrow> \<exists>n'. ids_from e0 n' (run v reqs s)"
proof (induction reqs arbitrary: n s)
  case Nil
  then show ?case by auto
next
  case (Cons b reqs)
  from ids_from_step [OF inj Cons.prems, of v b]
  obtain n' where "ids_from e0 n' (snd (createBot v b s))" ..
  from Cons.IH [OF this] show ?case by simp
qed

section \<open>Successful creation\<close>

text \<open>
  C4, as the code has it. A request that passes the five checks, with an integer
  balance \<open>p\<close> of at most \<open>2 ^ 53\<close> and both writes succeeding, is answered with 200;
  the balance is then exactly \<open>p - 250\<close> (and \<open>p\<close> was at least 250), exactly one record
  is appended to the list, in state \<^verbatim>\<open>Waiting for Verification\<close> and private, the
  counter is one more, and both documents on disk hold the new values.
\<close>

theorem createBot_success:
  assumes "first_failing v b m = None" and "points (userInfo m) = Num p" and "p \<le> 2 ^ 53"
    and "writes e \<notin> failing e" and "Suc (writes e) \<notin> failing e"
  shows "\<exists>msg r e'. createBot v b (m, e) =
       (Some (Json 200 (CreatedBody msg r)),
        m\<lparr>bots := bots m @ [r], botCount := botCount m + 1,
          userInfo := (userInfo m)\<lparr>points := Num (p - 250)\<rparr>\<rparr>, e')
     \<and> 250 \<le> p \<and> status r = ''Waiting for Verification'' \<and> isPrivate r
     \<and> bot_data_json e' = Doc (bots m @ [r])
     \<and> (\<exists>u. user_data_json e' = Doc u \<and> points u = Num (p - 250))"
proof -
  from assms(1,2) have p: "250 \<le> p"
    by (simp add: first_failing_None)
  from minus_num_exact [OF p assms(3)] assms show ?thesis
    unfolding first_failing_None
    by (simp add: createBot_def io_defs Let_def)
qed

text \<open>With 300 points, a successful creation leaves 50.\<close>

theorem createBot_success_witness:
  "first_failing SingleUser req_a (empty_store 300 None) = None
   \<and> (300 :: int) \<le> 2 ^ 53
   \<and> (case createBot SingleUser req_a (empty_store 300 None, disk 300 None {} steady_clock)
      of (res, m', e') \<Rightarrow>
        userInfo m' = account 50 None \<and> botCount m' = 1
        \<and> map status (bots m') = [''Waiting for Verification'']
        \<and> map isPrivate (bots m') = [True]
        \<and> bot_data_json e' = Doc (bots m'))"
  using createBot_success [of SingleUser req_a "empty_store 300 None" 300
      "disk 300 None {} steady_clock"]
  by (auto simp: first_failing_def)

text \<open>
  Above \<open>2 ^ 53\<close> the subtraction is rounded. With a balance of \<open>10 ^ 17\<close>, which is a
  double, a successful creation leaves 99999999999999744: 256 less, not 250.
\<close>

theorem createBot_rounded_balance_counterexample:
  "first_failing SingleUser req_a (empty_store 100000000000000000 None) = None
   \<and> (case createBot SingleUser req_a
          (empty_store 100000000000000000 None, disk 100000000000000000 None {} steady_clock)
      of (res, m', e') \<Rightarrow>
        points (userInfo m') = Num 99999999999999744
        \<and> points (userInfo m') \<noteq> Num (100000000000000000 - 250)
        \<and> botCount m' = 1
        \<and> map status (bots m') = [''Waiting for Verification'']
        \<and> bot_data_json e' = Doc (bots m')
        \<and> user_data_json e' = Doc (account 99999999999999744 None))"
  by (simp add: first_failing_def createBot_def io_defs Let_def limit_defs to_double_def
        bitlen_nat.simps)

section \<open>Failure of the first write\<close>

text \<open>
  C5. When the five checks pass and the write of the user document rejects, the
  response is 500 with the points-save message, the memory is what it was before the
  request (the balance is back, no record was built or appended), and the only write
  attempted is the rejected one: the files are untouched, the clock was not read.
\<close>

theorem createBot_points_save_failure:
  assumes "first_failing v b m = None" and "writes e \<in> failing e"
  shows "createBot v b (m, e) =
     (Some (Json 500 (ErrorBody ''Error saving points. Please try again.'')), m,
      e\<lparr>console := console e @ [Log ''Create bot attempt'', Error ''Failed to save user data:''],
        writes := Suc (writes e)\<rparr>)"
  using assms unfolding first_failing_None
  by (simp add: createBot_def io_defs Let_def)

theorem createBot_points_save_failure_witness:
  "first_failing SingleUser req_a (empty_store 300 None) = None
   \<and> createBot SingleUser req_a (empty_store 300 None, disk 300 None {0} steady_clock) =
     (Some (Json 500 (ErrorBody ''Error saving points. Please try again.'')),
      empty_store 300 None,
      (disk 300 None {0} steady_clock)
        \<lparr>writes := 1, console := [Log ''Create bot attempt'', Error ''Failed to save user data:'']\<rparr>)"
  using createBot_points_save_failure [of SingleUser req_a "empty_store 300 None"
      "disk 300 None {0} steady_clock"]
  by (simp add: first_failing_def)

section \<open>Validation\<close>

text \<open>
  C6. When some check fails, the handler answers 400 with the message of the first
  failing check in the order private flag, username, global capacity, private-bot
  quota, balance, and the bot list, the counter and the user info are exactly what they
  were; outside the memory only the console has one more line.
\<close>

theorem createBot_validation_order:
  assumes "first_failing v b m = Some c"
  shows "createBot v b (m, e) =
     (Some (Json 400 (ErrorBody (check_message v m c))), m, console_log ''Create bot attempt'' e)"
proof -
  have chain: "createBot v b (m, e) =
     (case first_failing v b m of
        Some k \<Rightarrow> (Some (Json 400 (ErrorBody (check_message v m k))), m,
                   console_log ''Create bot attempt'' e)
      | None \<Rightarrow> createBot v b (m, e))"
    by (cases "isPrivate_req b"; cases "username_req b"; cases v; cases "points (userInfo m)")
       (simp_all add: first_failing_def createBot_def Let_def limit_defs)
  show ?thesis
    using assms chain by simp
qed

text \<open>
  A request without the private flag and without a username, on a full list and an
  empty balance: every check but the quota fails, the answer is that of the first.
\<close>

theorem createBot_validation_order_witness:
  "first_failing SingleUser \<lparr>username_req = None, isPrivate_req = Some False, userId_req = None\<rparr>
      ((empty_store 0 None)\<lparr>botCount := 20\<rparr>) = Some PrivateFlag
   \<and> createBot SingleUser \<lparr>username_req = None, isPrivate_req = Some False, userId_req = None\<rparr>
      ((empty_store 0 None)\<lparr>botCount := 20\<rparr>, disk 0 None {} steady_clock) =
     (Some (Json 400 (ErrorBody ''Private bot checkbox must be checked.'')),
      (empty_store 0 None)\<lparr>botCount := 20\<rparr>,
      (disk 0 None {} steady_clock)\<lparr>console := [Log ''Create bot attempt'']\<rparr>)"
  using createBot_validation_order [of SingleUser
      "\<lparr>username_req = None, isPrivate_req = Some False, userId_req = None\<rparr>"
      "(empty_store 0 None)\<lparr>botCount := 20\<rparr>" PrivateFlag "disk 0 None {} steady_clock"]
  by (simp add: first_failing_def console_log_def)

section \<open>Failure of the second write\<close>

text \<open>
  C1. With 300 points, the first write succeeding and both the write of the bot list
  and the compensating write of the user document rejecting, the handler rolls the
  memory back (no record, counter 0, 300 points), but it ends without any response and
  without writing its error line to the console: the rejection of the second
  \<^verbatim>\<open>saveUserData\<close> leaves the \<^verbatim>\<open>catch\<close> block before \<^verbatim>\<open>console.error\<close> and
  \<^verbatim>\<open>res.status(500)\<close>. The user document on disk keeps the reduced balance of 50.
\<close>

theorem createBot_compensation_failure:
  "createBot SingleUser req_a (empty_store 300 None, disk 300 None {1, 2} steady_clock) =
     (None, empty_store 300 None,
      (disk 300 None {1, 2} steady_clock)
        \<lparr>user_data_json := Doc (account 50 None), writes := 3, clock_reads := 3,
         console := [Log ''Create bot attempt'', Log ''Points saved'']\<rparr>)"
  by (simp add: createBot_def io_defs Let_def limit_defs)

section \<open>Rollback on persistence errors\<close>

text \<open>
  C2, as the code has it. Whenever the creation handler answers 500, the memory after
  the request is exactly the memory before it.
\<close>

theorem createBot_error_rollback:
  assumes "fst (createBot v b (m, e)) = Some (Json 500 msg)"
  shows "fst (snd (createBot v b (m, e))) = m"
  using assms createBot_step [of v b "(m, e)"] by auto

text \<open>The bot list cannot be written; the compensating write succeeds.\<close>

theorem createBot_error_rollback_witness:
  "fst (createBot PerUser req_a
      (empty_store 300 (Some ''guest''), disk 300 (Some ''guest'') {1} steady_clock))
     = Some (Json 500 (ErrorBody ''Error saving bot. Please try again.''))
   \<and> fst (snd (createBot PerUser req_a
      (empty_store 300 (Some ''guest''), disk 300 (Some ''guest'') {1} steady_clock)))
     = empty_store 300 (Some ''guest'')"
proof -
  have r: "fst (createBot PerUser req_a
      (empty_store 300 (Some ''guest''), disk 300 (Some ''guest'') {1} steady_clock))
     = Some (Json 500 (ErrorBody ''Error saving bot. Please try again.''))"
    by (simp add: createBot_def io_defs Let_def limit_defs)
  from r createBot_error_rollback [OF r] show ?thesis by simp
qed

text \<open>
  The verify handler does not roll back: when its write rejects it answers 500 and the
  record stays \<^verbatim>\<open>Verified\<close> in memory, while the file keeps it waiting.
\<close>

theorem verifyBot_no_rollback_counterexample:
  "verifyBot ''bot_2'' (two_bots [bot_1, bot_2], two_bots_disk [bot_1, bot_2] {0} 0) =
     (Some (Json 500 (ErrorBody ''Error verifying bot.'')),
      two_bots [bot_1, bot_2\<lparr>status := ''Verified''\<rparr>],
      (two_bots_disk [bot_1, bot_2] {0} 0)
        \<lparr>writes := 1, console := [Error ''Failed to save bots:'']\<rparr>)
   \<and> fst (snd (verifyBot ''bot_2''
        (two_bots [bot_1, bot_2], two_bots_disk [bot_1, bot_2] {0} 0))) \<noteq> two_bots [bot_1, bot_2]"
  by (simp add: verifyBot_def io_defs Let_def)

section \<open>Quotas\<close>

text \<open>
  C3. In the per-user variant, six requests without a \<^verbatim>\<open>userId\<close>, on an empty list and
  1500 points, all succeed: the handler stores each record under \<^verbatim>\<open>guest\<close> but counts,
  for the quota, the records whose \<^verbatim>\<open>userId\<close> equals the absent one of the request. The
  user \<^verbatim>\<open>guest\<close> then owns six private records, and the same handler refuses a
  request that names \<^verbatim>\<open>guest\<close>.
\<close>

theorem guest_quota_exceeded:
  "privateBotCount PerUser req_guest
     (fst (run PerUser [req_a, req_a, req_a, req_a, req_a, req_a]
        (empty_store 1500 (Some ''guest''), disk 1500 (Some ''guest'') {} steady_clock))) = 6
   \<and> fst (createBot PerUser req_guest
       (run PerUser [req_a, req_a, req_a, req_a, req_a, req_a]
        (empty_store 1500 (Some ''guest''), disk 1500 (Some ''guest'') {} steady_clock))) =
      Some (Json 400 (ErrorBody ''Maximum private bot limit (5) reached for this user!''))"
  by (simp add: createBot_def io_defs Let_def limit_defs private_limit_message_def)

section \<open>Record ids\<close>

text \<open>
  C7, as the code has it. The id of a record is \<^verbatim>\<open>bot_\<close> followed by the clock reading
  taken at its construction. Starting from an empty list, after any sequence of
  creation requests the stored ids are pairwise distinct, provided the readings that
  the constructions take for their ids are pairwise distinct.
\<close>

theorem run_ids_distinct:
  assumes "bots m = []" and "inj (id_reading e)"
  shows "distinct (map id_bot (bots (fst (run v reqs (m, e)))))"
proof -
  have "ids_from e 0 (m, e)"
    using assms(1) by (simp add: ids_from_def)
  from ids_from_run [OF assms(2) this]
  show ?thesis by (auto simp: ids_from_def)
qed

text \<open>Two creations on a clock that advances at every reading.\<close>

theorem run_ids_distinct_witness:
  "bots (empty_store 600 None) = []
   \<and> inj (id_reading (disk 600 None {} steady_clock))
   \<and> distinct (map id_bot (bots (fst (run SingleUser [req_a, req_b]
        (empty_store 600 None, disk 600 None {} steady_clock)))))
   \<and> map username (bots (fst (run SingleUser [req_a, req_b]
        (empty_store 600 None, disk 600 None {} steady_clock)))) = [''a'', ''b'']"
proof -
  have i: "inj (id_reading (disk 600 None {} steady_clock))"
    by (simp add: inj_def id_reading_def steady_clock_def)
  have u: "map username (bots (fst (run SingleUser [req_a, req_b]
        (empty_store 600 None, disk 600 None {} steady_clock)))) = [''a'', ''b'']"
    by (simp add: createBot_def io_defs Let_def limit_defs)
  show ?thesis
    using i u run_ids_distinct [OF _ i, of "empty_store 600 None" SingleUser "[req_a, req_b]"]
    by simp
qed

text \<open>
  Two successful creations whose clock readings fall into the same millisecond give
  two records with the same id.
\<close>

theorem same_millisecond_ids_counterexample:
  "map id_bot (bots (fst (run SingleUser [req_a, req_b]
        (empty_store 600 None, disk 600 None {} stalled_clock))))
    = [''bot_1700000000000'', ''bot_1700000000000'']
   \<and> \<not> distinct (map id_bot (bots (fst (run SingleUser [req_a, req_b]
        (empty_store 600 None, disk 600 None {} stalled_clock)))))"
  by (simp add: createBot_def io_defs Let_def limit_defs stalled_clock_def dec_example)

section \<open>Loading one document while the other fails\<close>

text \<open>
  C8, as the code has it. When the bot file cannot be read or parsed and the user file
  holds a document, \<^verbatim>\<open>loadData\<close> returns with an empty list, a counter of 0 and the user
  info of the document (balance coerced, \<^verbatim>\<open>userId\<close> defaulted in the per-user variant);
  the variants with \<^verbatim>\<open>initializeDataFiles\<close> overwrite the bot file with the empty list,
  provided that write succeeds, and the legacy variant leaves the file as it is.
  Symmetrically, when the user file cannot be read or parsed and the bot file holds a
  list, the list is loaded with its length as counter, the user info is the default
  (in the legacy variant: the balance set to 0), and the user file is overwritten with
  the default, or left as it is in the legacy variant.
\<close>

theorem loadData_isolation:
  "(bot_data_json e = Corrupt \<and> user_data_json e = Doc u
      \<and> (v = SingleUserLegacy \<or> writes e \<notin> failing e) \<longrightarrow>
      (case loadData v (m, e) of (ok, m', e') \<Rightarrow>
         ok \<and> bots m' = [] \<and> botCount m' = 0
       \<and> points (userInfo m') = or_zero (points u)
       \<and> userId_info (userInfo m') =
           (if v = PerUser then Some (or_guest (userId_info u)) else userId_info u)
       \<and> bot_data_json e' = (if v = SingleUserLegacy then Corrupt else Doc [])
       \<and> user_data_json e' = Doc u))
   \<and> (bot_data_json e = Doc bs \<and> user_data_json e = Corrupt
      \<and> (v = SingleUserLegacy \<or> writes e \<notin> failing e) \<longrightarrow>
      (case loadData v (m, e) of (ok, m', e') \<Rightarrow>
         ok \<and> bots m' = bs \<and> botCount m' = int (length bs)
       \<and> userInfo m' =
           (if v = SingleUserLegacy then (userInfo m)\<lparr>points := Num 0\<rparr> else default_user v)
       \<and> user_data_json e' = (if v = SingleUserLegacy then Corrupt else Doc (default_user v))
       \<and> bot_data_json e' = Doc bs))"
  by (cases v) (simp_all add: load_defs Let_def)

text \<open>
  The per-user variant on a corrupt bot file next to a user document without
  \<^verbatim>\<open>userId\<close>, and on a corrupt user file next to a list of two records.
\<close>

theorem loadData_isolation_witness:
  "loadData PerUser (initial PerUser, (disk 300 None {} steady_clock)\<lparr>bot_data_json := Corrupt\<rparr>) =
     (True, empty_store 300 (Some ''guest''),
      (disk 300 None {} steady_clock)
        \<lparr>writes := 1,
         console := [Error ''Error loading bot_data.json'',
                     Log ''Initialized empty bot_data.json due to load error'',
                     Log ''Loaded user data'']\<rparr>)
   \<and> loadData PerUser
       (initial PerUser, (two_bots_disk [bot_1, bot_2] {} 0)\<lparr>user_data_json := Corrupt\<rparr>) =
     (True, \<lparr>bots = [bot_1, bot_2], botCount = 2, userInfo = account 0 (Some ''guest'')\<rparr>,
      (two_bots_disk [bot_1, bot_2] {} 0)
        \<lparr>user_data_json := Doc (account 0 (Some ''guest'')), writes := 1,
         console := [Log ''Loaded bots'', Error ''Error loading user_data.json'',
                     Log ''Initialized empty user_data.json due to load error'']\<rparr>)"
proof -
  let ?e1 = "(disk 300 None {} steady_clock)\<lparr>bot_data_json := Corrupt\<rparr>"
  let ?e2 = "(two_bots_disk [bot_1, bot_2] {} 0)\<lparr>user_data_json := Corrupt\<rparr>"
  have h1: "bot_data_json ?e1 = Corrupt \<and> user_data_json ?e1 = Doc (account 300 None)
      \<and> (PerUser = SingleUserLegacy \<or> writes ?e1 \<notin> failing ?e1)"
    by simp
  have h2: "bot_data_json ?e2 = Doc [bot_1, bot_2] \<and> user_data_json ?e2 = Corrupt
      \<and> (PerUser = SingleUserLegacy \<or> writes ?e2 \<notin> failing ?e2)"
    by simp
  have c1: "console (snd (snd (loadData PerUser (initial PerUser, ?e1)))) =
      [Error ''Error loading bot_data.json'',
       Log ''Initialized empty bot_data.json due to load error'', Log ''Loaded user data'']"
    and w1: "writes (snd (snd (loadData PerUser (initial PerUser, ?e1)))) = 1"
    and c2: "console (snd (snd (loadData PerUser (initial PerUser, ?e2)))) =
      [Log ''Loaded bots'', Error ''Error loading user_data.json'',
       Log ''Initialized empty user_data.json due to load error'']"
    and w2: "writes (snd (snd (loadData PerUser (initial PerUser, ?e2)))) = 1"
    by (simp_all add: load_defs initial_def default_user_def Let_def)
  have r: "failing (snd (snd (loadData PerUser (initial PerUser, ?e1)))) = {}"
      "clock (snd (snd (loadData PerUser (initial PerUser, ?e1)))) = steady_clock"
      "clock_reads (snd (snd (loadData PerUser (initial PerUser, ?e1)))) = 0"
      "failing (snd (snd (loadData PerUser (initial PerUser, ?e2)))) = {}"
      "clock (snd (snd (loadData PerUser (initial PerUser, ?e2)))) = steady_clock"
      "clock_reads (snd (snd (loadData PerUser (initial PerUser, ?e2)))) = 0"
    by (simp_all add: load_defs initial_def default_user_def Let_def)
  from loadData_isolation [where e = ?e1 and u = "account 300 None" and v = PerUser
        and m = "initial PerUser", THEN conjunct1, rule_format, OF h1]
    loadData_isolation [where e = ?e2 and v = PerUser and bs = "[bot_1, bot_2]"
        and m = "initial PerUser", THEN conjunct2, rule_format, OF h2]
    c1 w1 c2 w2 r
  show ?thesis
    by (auto simp: default_user_def initial_def split: prod.splits
          intro!: mem.equality env.equality user_info.equality)
qed

text \<open>
  The legacy variant never writes while loading: the corrupt bot file is still corrupt
  afterwards. In the first variant a rejected overwrite of the corrupt bot file makes
  \<^verbatim>\<open>loadData\<close> throw before the user file is read: the balance in memory stays 0 beside
  a document holding 300.
\<close>

theorem loadData_no_overwrite_counterexample:
  "loadData SingleUserLegacy
      (initial SingleUserLegacy, (disk 300 None {} steady_clock)\<lparr>bot_data_json := Corrupt\<rparr>) =
     (True, empty_store 300 None,
      (disk 300 None {} steady_clock)
        \<lparr>bot_data_json := Corrupt,
         console := [Error ''Error loading bots:'', Log ''Loaded user data'']\<rparr>)
   \<and> loadData SingleUser
      (initial SingleUser, (disk 300 None {0} steady_clock)\<lparr>bot_data_json := Corrupt\<rparr>) =
     (False, empty_store 0 None,
      (disk 300 None {0} steady_clock)
        \<lparr>bot_data_json := Corrupt, writes := 1,
         console := [Error ''Error loading bot_data.json'', Error ''Error initializing data files'']\<rparr>)"
  by (simp add: load_defs initial_def default_user_def Let_def)

section \<open>Verification\<close>

text \<open>
  C9. \<^verbatim>\<open>verifyBot\<close> on an id that no record carries answers 404 and leaves memory and
  disk as they were. On an id that a record carries, the first such record gets the
  status \<^verbatim>\<open>Verified\<close> and nothing else changes in memory; the bot list is written, the
  answer is 200 when the write succeeds (the file then holds the new list) and 500 when
  it rejects. Verifying the same id again, in any environment \<open>e2\<close>, leaves the memory
  as the first verification made it, and is again a 200 unless its write rejects.
\<close>

theorem verifyBot_outcomes:
  "(botId \<notin> id_bot ` set (bots m) \<longrightarrow>
      verifyBot botId (m, e) = (Some (Json 404 (ErrorBody ''Bot not found.'')), m, e))
   \<and> (bots m = xs @ r # ys \<and> botId \<notin> id_bot ` set xs \<and> id_bot r = botId \<longrightarrow>
        verifyBot botId (m, e) =
          (if writes e \<in> failing e
           then (Some (Json 500 (ErrorBody ''Error verifying bot.'')),
                 m\<lparr>bots := xs @ r\<lparr>status := ''Verified''\<rparr> # ys\<rparr>,
                 e\<lparr>writes := Suc (writes e), console := console e @ [Error ''Failed to save bots:'']\<rparr>)
           else (Some (Json 200 (MessageBody (''Bot '' @ username r @ '' verified.''))),
                 m\<lparr>bots := xs @ r\<lparr>status := ''Verified''\<rparr> # ys\<rparr>,
                 e\<lparr>bot_data_json := Doc (xs @ r\<lparr>status := ''Verified''\<rparr> # ys),
                   writes := Suc (writes e)\<rparr>))
      \<and> fst (snd (verifyBot botId (m\<lparr>bots := xs @ r\<lparr>status := ''Verified''\<rparr> # ys\<rparr>, e2))) =
          m\<lparr>bots := xs @ r\<lparr>status := ''Verified''\<rparr> # ys\<rparr>
      \<and> fst (verifyBot botId (m\<lparr>bots := xs @ r\<lparr>status := ''Verified''\<rparr> # ys\<rparr>, e2)) =
          (if writes e2 \<in> failing e2 then Some (Json 500 (ErrorBody ''Error verifying bot.''))
           else Some (Json 200 (MessageBody (''Bot '' @ username r @ '' verified.'')))))"
proof (intro conjI impI)
  assume "botId \<notin> id_bot ` set (bots m)"
  then show "verifyBot botId (m, e) = (Some (Json 404 (ErrorBody ''Bot not found.'')), m, e)"
    by (simp add: verifyBot_def find_bot_None [symmetric])
next
  assume a: "bots m = xs @ r # ys \<and> botId \<notin> id_bot ` set xs \<and> id_bot r = botId"
  let ?r = "r\<lparr>status := ''Verified''\<rparr>"
  let ?m = "m\<lparr>bots := xs @ ?r # ys\<rparr>"
  show "verifyBot botId (m, e) =
     (if writes e \<in> failing e
      then (Some (Json 500 (ErrorBody ''Error verifying bot.'')), ?m,
            e\<lparr>writes := Suc (writes e), console := console e @ [Error ''Failed to save bots:'']\<rparr>)
      else (Some (Json 200 (MessageBody (''Bot '' @ username r @ '' verified.''))), ?m,
            e\<lparr>bot_data_json := Doc (xs @ ?r # ys), writes := Suc (writes e)\<rparr>))"
    using a by (intro verifyBot_present) simp_all
  have again: "verifyBot botId (?m, e2) =
     (if writes e2 \<in> failing e2
      then (Some (Json 500 (ErrorBody ''Error verifying bot.'')), ?m,
            e2\<lparr>writes := Suc (writes e2), console := console e2 @ [Error ''Failed to save bots:'']\<rparr>)
      else (Some (Json 200 (MessageBody (''Bot '' @ username r @ '' verified.''))), ?m,
            e2\<lparr>bot_data_json := Doc (xs @ ?r # ys), writes := Suc (writes e2)\<rparr>))"
    using a verifyBot_present [of ?m xs ?r ys botId e2] by simp
  show "fst (snd (verifyBot botId (?m, e2))) = ?m"
    by (simp add: again)
  show "fst (verifyBot botId (?m, e2)) =
          (if writes e2 \<in> failing e2 then Some (Json 500 (ErrorBody ''Error verifying bot.''))
           else Some (Json 200 (MessageBody (''Bot '' @ username r @ '' verified.''))))"
    by (simp add: again)
qed

text \<open>
  Two records, the second waiting: an unknown id, the first verification of the second
  record, and a repeated one whose write rejects.
\<close>

theorem verifyBot_outcomes_witness:
  "verifyBot ''bot_9'' (two_bots [bot_1, bot_2], two_bots_disk [bot_1, bot_2] {1} 0) =
     (Some (Json 404 (ErrorBody ''Bot not found.'')),
      two_bots [bot_1, bot_2], two_bots_disk [bot_1, bot_2] {1} 0)
   \<and> verifyBot ''bot_2'' (two_bots [bot_1, bot_2], two_bots_disk [bot_1, bot_2] {1} 0) =
     (Some (Json 200 (MessageBody ''Bot b verified.'')),
      two_bots [bot_1, bot_2\<lparr>status := ''Verified''\<rparr>],
      two_bots_disk [bot_1, bot_2\<lparr>status := ''Verified''\<rparr>] {1} 1)
   \<and> verifyBot ''bot_2'' (two_bots [bot_1, bot_2\<lparr>status := ''Verified''\<rparr>],
        two_bots_disk [bot_1, bot_2\<lparr>status := ''Verified''\<rparr>] {1} 1) =
     (Some (Json 500 (ErrorBody ''Error verifying bot.'')),
      two_bots [bot_1, bot_2\<lparr>status := ''Verified''\<rparr>],
      (two_bots_disk [bot_1, bot_2\<lparr>status := ''Verified''\<rparr>] {1} 1)
        \<lparr>writes := 2, console := [Error ''Failed to save bots:'']\<rparr>)"
proof -
  have absent: "''bot_9'' \<notin> id_bot ` set (bots (two_bots [bot_1, bot_2]))"
    by simp
  have present: "bots (two_bots [bot_1, bot_2]) = [bot_1] @ bot_2 # []
      \<and> ''bot_2'' \<notin> id_bot ` set [bot_1] \<and> id_bot bot_2 = ''bot_2''"
    by simp
  have again: "bots (two_bots [bot_1, bot_2\<lparr>status := ''Verified''\<rparr>]) =
        [bot_1] @ bot_2\<lparr>status := ''Verified''\<rparr> # []
      \<and> ''bot_2'' \<notin> id_bot ` set [bot_1] \<and> id_bot (bot_2\<lparr>status := ''Verified''\<rparr>) = ''bot_2''"
    by simp
  from verifyBot_outcomes [of "''bot_9''" "two_bots [bot_1, bot_2]"
          "two_bots_disk [bot_1, bot_2] {1} 0", THEN conjunct1, rule_format, OF absent]
       verifyBot_outcomes [of "''bot_2''" "two_bots [bot_1, bot_2]"
          "two_bots_disk [bot_1, bot_2] {1} 0" "[bot_1]" bot_2 "[]",
          THEN conjunct2, rule_format, OF present]
       verifyBot_outcomes [of "''bot_2''" "two_bots [bot_1, bot_2\<lparr>status := ''Verified''\<rparr>]"
          "two_bots_disk [bot_1, bot_2\<lparr>status := ''Verified''\<rparr>] {1} 1" "[bot_1]"
          "bot_2\<lparr>status := ''Verified''\<rparr>" "[]",
          THEN conjunct2, rule_format, OF again]
  show ?thesis by simp
qed

section \<open>The counter and the list\<close>

text \<open>
  C10. After \<^verbatim>\<open>loadData\<close> from the module's initial values, whatever the files hold
  and whichever writes reject, and after any sequence of creation requests that
  follows, whatever each ends in, \<^verbatim>\<open>botCount\<close> equals the length of \<^verbatim>\<open>bots\<close> (the empty
  sequence gives the state right after loading).
\<close>

theorem botCount_is_length:
  "botCount (fst (run v reqs (snd (loadData v (initial v, e))))) =
     int (length (bots (fst (run v reqs (snd (loadData v (initial v, e)))))))"
  by (rule run_count) (rule loadData_count)

end
